theory Spec2Isabelle
  imports Main
begin

section \<open>Data model (products/models.py)\<close>

text \<open>
  The three Django models become records and the database becomes a record of three
  tables. A table is a list of rows, newest first, which is the default ordering of
  \<^verbatim>\<open>Product\<close> and \<^verbatim>\<open>SoldProduct\<close> (\<^verbatim>\<open>ordering = ['-created_at']\<close>).
  A foreign key is the primary key of the row it points to. Python integers are
  unbounded, so \<^verbatim>\<open>stock\<close> and \<^verbatim>\<open>quantity\<close> are \<open>int\<close>: that a
  \<^verbatim>\<open>PositiveIntegerField\<close> stays at or above zero is then something to prove, not a
  property of the type. A \<^verbatim>\<open>DecimalField\<close> with two decimal places is the integer
  number of hundredths. Text is ASCII, one \<open>char\<close> for each character. The timestamp
  columns, the image of a product and the columns of an account other than its name
  and its role are left out.
\<close>

datatype status = Pending | Processing | Shipped | Delivered | Cancelled

record user =
  uid :: nat
  username :: string
  is_seller :: bool

record product =
  pid :: nat
  name :: string
  description :: string
  price :: int
  category :: string
  stock :: int
  seller :: nat

record sold_product =
  oid :: nat
  product :: nat
  buyer :: nat
  quantity :: int
  total_price :: int
  status :: status
  shipping_address :: string

text \<open>
  The store also holds the next primary keys of the two tables that grow, and the
  largest value the database backend takes in a \<^verbatim>\<open>PositiveIntegerField\<close> column
  (9223372036854775807 with SQLite, 2147483647 with PostgreSQL): the settings that choose
  the backend are not among the sources, so the bound is a parameter of the store.
\<close>

record store =
  users :: "user list"
  products :: "product list"
  orders :: "sold_product list"
  next_pid :: nat
  next_oid :: nat
  integer_max :: int

text \<open>
  The exceptions a request can end with. \<open>ValidationError field message\<close> is
  \<^verbatim>\<open>serializers.ValidationError({field: message})\<close> as views.py raises it;
  \<open>FieldInvalid fields\<close> is the same exception raised by the serializer for the
  fields that did not validate, in the order of the serializer's \<^verbatim>\<open>fields\<close> (the
  messages are the framework's); \<open>KeyError\<close> is a missing key of
  \<^verbatim>\<open>validated_data\<close>.
\<close>

datatype error =
    NotAuthenticated
  | PermissionDenied
  | NotFound
  | ValidationError string string
  | FieldInvalid "string list"
  | KeyError string

section \<open>Permissions (products/views.py)\<close>

datatype action = List_action | Retrieve | Create | Update | Partial_update | Destroy

datatype permission = AllowAny | IsAuthenticated | IsSeller

text \<open>
  The caller is \<open>None\<close> for an anonymous request and \<open>Some u\<close> for a logged-in
  user. \<^verbatim>\<open>IsSeller.has_permission\<close> returns
  \<^verbatim>\<open>request.user and request.user.is_seller\<close>; it is only ever listed after
  \<^verbatim>\<open>IsAuthenticated\<close>, so the anonymous case is never reached.
\<close>

fun has_permission :: "permission \<Rightarrow> user option \<Rightarrow> bool" where
  "has_permission AllowAny c = True"
| "has_permission IsAuthenticated c = (c \<noteq> None)"
| "has_permission IsSeller c = (case c of None \<Rightarrow> False | Some u \<Rightarrow> is_seller u)"

text \<open>
  The permission classes are checked in order and the first refusal ends the request:
  an anonymous caller is not authenticated, a logged-in one is denied.
\<close>

fun check_permissions :: "permission list \<Rightarrow> user option \<Rightarrow> error option" where
  "check_permissions [] c = None"
| "check_permissions (p # ps) c =
     (if has_permission p c then check_permissions ps c
      else Some (if c = None then NotAuthenticated else PermissionDenied))"

definition product_get_permissions :: "action \<Rightarrow> permission list" where
  "product_get_permissions a =
     (if a \<in> {List_action, Retrieve} then [AllowAny] else [IsAuthenticated, IsSeller])"

definition sold_get_permissions :: "action \<Rightarrow> permission list" where
  "sold_get_permissions a =
     (if a \<in> {List_action, Retrieve} then [AllowAny] else [IsAuthenticated])"

definition user_permission_classes :: "permission list" where
  "user_permission_classes = [IsAuthenticated]"

section \<open>Field validation (products/serializers.py, products/models.py)\<close>

text \<open>
  What the serializers' fields do with a value, as the model columns they are built
  from declare it. A character field trims the white space at both ends (Python's
  \<^verbatim>\<open>str.strip\<close>), refuses a value that is then empty unless the column is
  \<^verbatim>\<open>blank=True\<close>, refuses the null character, and refuses a value longer than the
  column's \<^verbatim>\<open>max_length\<close>. A \<^verbatim>\<open>PositiveIntegerField\<close> takes 0 up to the
  backend's bound. A \<^verbatim>\<open>DecimalField(max_digits=10, decimal_places=2)\<close> takes at most
  eight digits before the point.
\<close>

definition is_space :: "char \<Rightarrow> bool" where
  "is_space ch = ((of_char ch :: nat) \<in> {9, 10, 11, 12, 13, 28, 29, 30, 31, 32})"

definition strip :: "string \<Rightarrow> string" where
  "strip xs = rev (dropWhile is_space (rev (dropWhile is_space xs)))"

definition text_invalid :: "string \<Rightarrow> bool" where
  "text_invalid xs = (strip xs = [] \<or> list_ex (\<lambda>ch. (of_char ch :: nat) = 0) xs)"

definition char_invalid :: "nat \<Rightarrow> string \<Rightarrow> bool" where
  "char_invalid max_length xs = (text_invalid xs \<or> max_length < length (strip xs))"

definition positive_integer_invalid :: "store \<Rightarrow> int \<Rightarrow> bool" where
  "positive_integer_invalid s n = (n < 0 \<or> integer_max s < n)"

definition decimal_invalid :: "int \<Rightarrow> bool" where
  "decimal_invalid v = (10000000000 \<le> \<bar>v\<bar>)"

text \<open>
  The serializer validates every field and reports all that failed: the names of the
  fields whose check is true, in the order given.
\<close>

definition failed_fields :: "(string \<times> bool) list \<Rightarrow> string list" where
  "failed_fields checks = map fst (filter snd checks)"

section \<open>The purchase (SoldProductViewSet.perform_create)\<close>

text \<open>Python's \<^verbatim>\<open>str\<close> of an integer, as the f-string of the error message uses it.\<close>

fun str_nat :: "nat \<Rightarrow> string" where
  "str_nat n =
     (if n < 10 then [''0123456789'' ! n]
      else str_nat (n div 10) @ [''0123456789'' ! (n mod 10)])"

definition str_int :: "int \<Rightarrow> string" where
  "str_int i = (if i < 0 then ''-'' @ str_nat (nat (- i)) else str_nat (nat i))"

text \<open>
  The body of a \<^verbatim>\<open>POST /sold-products\<close> as \<^verbatim>\<open>SoldProductSerializer\<close> reads it,
  each field a value of its JSON type: \<^verbatim>\<open>product_id\<close>, \<^verbatim>\<open>quantity\<close>,
  \<^verbatim>\<open>total_price\<close>, \<^verbatim>\<open>status\<close> and \<^verbatim>\<open>shipping_address\<close> are writable;
  \<^verbatim>\<open>id\<close>, \<^verbatim>\<open>created_at\<close> and \<^verbatim>\<open>buyer\<close> are read-only and ignored on
  input. \<^verbatim>\<open>quantity\<close> and \<^verbatim>\<open>status\<close> have model defaults, so the request may
  leave them out.
\<close>

record purchase_request =
  req_product_id :: nat
  req_quantity :: "int option"
  req_total_price :: int
  req_status :: "status option"
  req_shipping_address :: string

record validated_data =
  vd_product :: product
  vd_quantity :: "int option"
  vd_total_price :: int
  vd_status :: "status option"
  vd_shipping_address :: string

text \<open>
  Validation by the declared fields: \<^verbatim>\<open>product_id\<close> is a
  \<^verbatim>\<open>PrimaryKeyRelatedField\<close> over \<^verbatim>\<open>Product.objects.all()\<close> with
  \<^verbatim>\<open>source='product'\<close>, so it is resolved to the product row or refused;
  \<^verbatim>\<open>quantity\<close> is a \<^verbatim>\<open>PositiveIntegerField\<close>; \<^verbatim>\<open>total_price\<close> is a
  \<^verbatim>\<open>DecimalField(max_digits=10, decimal_places=2)\<close>; \<^verbatim>\<open>shipping_address\<close> is a
  \<^verbatim>\<open>TextField\<close> that may not be blank, and is stored trimmed.
\<close>

definition get_product :: "store \<Rightarrow> nat \<Rightarrow> product option" where
  "get_product s k = find (\<lambda>p. pid p = k) (products s)"

definition purchase_errors :: "store \<Rightarrow> purchase_request \<Rightarrow> string list" where
  "purchase_errors s req =
     failed_fields
       [(''product_id'', (case get_product s (req_product_id req) of None \<Rightarrow> True | Some p \<Rightarrow> False)),
        (''quantity'', (case req_quantity req of None \<Rightarrow> False
                         | Some q \<Rightarrow> positive_integer_invalid s q)),
        (''total_price'', decimal_invalid (req_total_price req)),
        (''shipping_address'', text_invalid (req_shipping_address req))]"

definition run_validation :: "store \<Rightarrow> purchase_request \<Rightarrow> error + validated_data" where
  "run_validation s req =
     (if purchase_errors s req \<noteq> [] then Inl (FieldInvalid (purchase_errors s req))
      else
        (case get_product s (req_product_id req) of
           None \<Rightarrow> Inl (FieldInvalid [''product_id''])
         | Some p \<Rightarrow>
             Inr \<lparr>vd_product = p, vd_quantity = req_quantity req,
                  vd_total_price = req_total_price req,
                  vd_status = req_status req,
                  vd_shipping_address = strip (req_shipping_address req)\<rparr>))"

text \<open>
  \<^verbatim>\<open>product.save()\<close> writes the row with the product's primary key (and inserts
  it when there is none).
\<close>

definition save_product :: "product \<Rightarrow> product list \<Rightarrow> product list" where
  "save_product p ps =
     (if list_ex (\<lambda>r. pid r = pid p) ps
      then map (\<lambda>r. if pid r = pid p then p else r) ps
      else p # ps)"

text \<open>
  \<^verbatim>\<open>serializer.save(buyer=self.request.user)\<close> inserts a \<^verbatim>\<open>SoldProduct\<close> from
  the validated data and the buyer; a field left out takes its model default
  (\<^verbatim>\<open>quantity\<close> 1, \<^verbatim>\<open>status\<close> \<^verbatim>\<open>'Pending'\<close>).
\<close>

definition serializer_save :: "store \<Rightarrow> validated_data \<Rightarrow> user \<Rightarrow> sold_product \<times> store" where
  "serializer_save s vd u =
     (let order = \<lparr>oid = next_oid s, product = pid (vd_product vd), buyer = uid u,
                   quantity = (case vd_quantity vd of None \<Rightarrow> 1 | Some q \<Rightarrow> q),
                   total_price = vd_total_price vd,
                   status = (case vd_status vd of None \<Rightarrow> Pending | Some st \<Rightarrow> st),
                   shipping_address = vd_shipping_address vd\<rparr>
      in (order, s\<lparr>orders := order # orders s, next_oid := Suc (next_oid s)\<rparr>))"

text \<open>
  \<^verbatim>\<open>perform_create\<close>: every path returns the store it leaves behind, so a failure
  that had already written would show.
\<close>

definition perform_create :: "store \<Rightarrow> user \<Rightarrow> validated_data \<Rightarrow> (error + sold_product) \<times> store" where
  "perform_create s u vd =
     (let p = vd_product vd in
      case vd_quantity vd of
        None \<Rightarrow> (Inl (KeyError ''quantity''), s)
      | Some q \<Rightarrow>
          if stock p < q
          then (Inl (ValidationError ''quantity''
                  (''Not enough stock available. Only '' @ str_int (stock p)
                     @ '' items left.'')), s)
          else
            let p' = p\<lparr>stock := stock p - q\<rparr>;
                s1 = s\<lparr>products := save_product p' (products s)\<rparr>;
                (order, s2) = serializer_save s1 vd u
            in (Inr order, s2))"

text \<open>
  The \<^verbatim>\<open>create\<close> action of the view set: permissions, then validation, then
  \<^verbatim>\<open>perform_create\<close>.
\<close>

definition sold_create :: "store \<Rightarrow> user option \<Rightarrow> purchase_request \<Rightarrow> (error + sold_product) \<times> store" where
  "sold_create s c req =
     (case check_permissions (sold_get_permissions Create) c of
        Some e \<Rightarrow> (Inl e, s)
      | None \<Rightarrow>
          (case c of
             None \<Rightarrow> (Inl NotAuthenticated, s)
           | Some u \<Rightarrow>
               (case run_validation s req of
                  Inl e \<Rightarrow> (Inl e, s)
                | Inr vd \<Rightarrow> perform_create s u vd)))"

text \<open>A run of purchase requests, each against the store the one before it left.\<close>

fun purchases :: "store \<Rightarrow> (user option \<times> purchase_request) list \<Rightarrow> store" where
  "purchases s [] = s"
| "purchases s ((c, req) # rs) = purchases (snd (sold_create s c req)) rs"

definition stock_nonneg :: "store \<Rightarrow> bool" where
  "stock_nonneg s = list_all (\<lambda>p. 0 \<le> stock p) (products s)"

section \<open>The catalog (ProductViewSet)\<close>

text \<open>
  \<^verbatim>\<open>get_queryset\<close>: the caller's role picks the rows, then the
  \<^verbatim>\<open>category\<close> query parameter, when present and not empty, filters them.
\<close>

definition product_get_queryset :: "store \<Rightarrow> user option \<Rightarrow> string option \<Rightarrow> product list" where
  "product_get_queryset s c cat =
     (let queryset =
        (if (case c of None \<Rightarrow> False | Some u \<Rightarrow> is_seller u)
         then products s
         else filter (\<lambda>p. 0 < stock p) (products s))
      in case cat of
           None \<Rightarrow> queryset
         | Some k \<Rightarrow> if k = [] then queryset else filter (\<lambda>p. category p = k) queryset)"

text \<open>The \<^verbatim>\<open>list\<close> action: permissions, then the queryset.\<close>

definition product_list :: "store \<Rightarrow> user option \<Rightarrow> string option \<Rightarrow> error + product list" where
  "product_list s c cat =
     (case check_permissions (product_get_permissions List_action) c of
        Some e \<Rightarrow> Inl e
      | None \<Rightarrow> Inr (product_get_queryset s c cat))"

text \<open>
  The detail actions look the primary key up in the queryset of the request and answer
  404 when it is not there.
\<close>

definition product_get_object :: "store \<Rightarrow> user option \<Rightarrow> string option \<Rightarrow> nat \<Rightarrow> product option" where
  "product_get_object s c cat pk = find (\<lambda>p. pid p = pk) (product_get_queryset s c cat)"

text \<open>
  Deleting a product row deletes the orders that point to it:
  \<^verbatim>\<open>SoldProduct.product\<close> is declared \<^verbatim>\<open>on_delete=models.CASCADE\<close>.
\<close>

definition delete_product :: "store \<Rightarrow> nat \<Rightarrow> store" where
  "delete_product s k =
     s\<lparr>products := filter (\<lambda>p. pid p \<noteq> k) (products s),
       orders := filter (\<lambda>r. product r \<noteq> k) (orders s)\<rparr>"

definition product_destroy :: "store \<Rightarrow> user option \<Rightarrow> string option \<Rightarrow> nat \<Rightarrow> (error + unit) \<times> store" where
  "product_destroy s c cat pk =
     (case check_permissions (product_get_permissions Destroy) c of
        Some e \<Rightarrow> (Inl e, s)
      | None \<Rightarrow>
          (case product_get_object s c cat pk of
             None \<Rightarrow> (Inl NotFound, s)
           | Some p \<Rightarrow> (Inr (), delete_product s (pid p))))"

text \<open>
  The writable fields of \<^verbatim>\<open>ProductSerializer\<close> other than the image; a
  \<^verbatim>\<open>PATCH\<close> sends any of them, a \<^verbatim>\<open>PUT\<close> all. \<^verbatim>\<open>seller\<close> is read-only.
  \<^verbatim>\<open>name\<close> is a \<^verbatim>\<open>CharField(max_length=200)\<close>, \<^verbatim>\<open>description\<close> a
  \<^verbatim>\<open>TextField\<close>, \<^verbatim>\<open>price\<close> a \<^verbatim>\<open>DecimalField(max_digits=10, decimal_places=2)\<close>,
  \<^verbatim>\<open>category\<close> one of \<^verbatim>\<open>CATEGORY_CHOICES\<close> and \<^verbatim>\<open>stock\<close> a
  \<^verbatim>\<open>PositiveIntegerField\<close>.
\<close>

record product_patch =
  patch_name :: "string option"
  patch_description :: "string option"
  patch_price :: "int option"
  patch_category :: "string option"
  patch_stock :: "int option"

definition CATEGORY_CHOICES :: "string list" where
  "CATEGORY_CHOICES = [''Plants'', ''Seeds'', ''Gardening Tools'', ''Pots & Planters'']"

definition validate_patch :: "store \<Rightarrow> product_patch \<Rightarrow> string list" where
  "validate_patch s d =
     failed_fields
       [(''name'', (case patch_name d of None \<Rightarrow> False | Some v \<Rightarrow> char_invalid 200 v)),
        (''description'', (case patch_description d of None \<Rightarrow> False | Some v \<Rightarrow> text_invalid v)),
        (''price'', (case patch_price d of None \<Rightarrow> False | Some v \<Rightarrow> decimal_invalid v)),
        (''category'', (case patch_category d of None \<Rightarrow> False
                         | Some k \<Rightarrow> \<not> list_ex (\<lambda>x. x = k) CATEGORY_CHOICES)),
        (''stock'', (case patch_stock d of None \<Rightarrow> False
                      | Some n \<Rightarrow> positive_integer_invalid s n))]"

definition apply_patch :: "product_patch \<Rightarrow> product \<Rightarrow> product" where
  "apply_patch d p =
     p\<lparr>name := (case patch_name d of None \<Rightarrow> name p | Some v \<Rightarrow> strip v),
       description := (case patch_description d of None \<Rightarrow> description p | Some v \<Rightarrow> strip v),
       price := (case patch_price d of None \<Rightarrow> price p | Some v \<Rightarrow> v),
       category := (case patch_category d of None \<Rightarrow> category p | Some v \<Rightarrow> v),
       stock := (case patch_stock d of None \<Rightarrow> stock p | Some v \<Rightarrow> v)\<rparr>"

definition product_update :: "store \<Rightarrow> user option \<Rightarrow> string option \<Rightarrow> nat \<Rightarrow> product_patch \<Rightarrow> (error + product) \<times> store" where
  "product_update s c cat pk d =
     (case check_permissions (product_get_permissions Partial_update) c of
        Some e \<Rightarrow> (Inl e, s)
      | None \<Rightarrow>
          (case product_get_object s c cat pk of
             None \<Rightarrow> (Inl NotFound, s)
           | Some p \<Rightarrow>
               if validate_patch s d \<noteq> [] then (Inl (FieldInvalid (validate_patch s d)), s)
               else
                 (Inr (apply_patch d p),
                  s\<lparr>products := save_product (apply_patch d p) (products s)\<rparr>)))"

text \<open>
  The body of a \<^verbatim>\<open>POST /products\<close>: \<^verbatim>\<open>stock\<close> has a model default and may be
  left out. \<^verbatim>\<open>perform_create\<close> saves the product with the caller as its seller.
\<close>

record product_form =
  form_name :: string
  form_description :: string
  form_price :: int
  form_category :: string
  form_stock :: "int option"

definition validate_form :: "store \<Rightarrow> product_form \<Rightarrow> string list" where
  "validate_form s f =
     failed_fields
       [(''name'', char_invalid 200 (form_name f)),
        (''description'', text_invalid (form_description f)),
        (''price'', decimal_invalid (form_price f)),
        (''category'', \<not> list_ex (\<lambda>x. x = form_category f) CATEGORY_CHOICES),
        (''stock'', (case form_stock f of None \<Rightarrow> False
                      | Some n \<Rightarrow> positive_integer_invalid s n))]"

definition product_create :: "store \<Rightarrow> user option \<Rightarrow> product_form \<Rightarrow> (error + product) \<times> store" where
  "product_create s c f =
     (case check_permissions (product_get_permissions Create) c of
        Some e \<Rightarrow> (Inl e, s)
      | None \<Rightarrow>
          (case c of
             None \<Rightarrow> (Inl NotAuthenticated, s)
           | Some u \<Rightarrow>
               if validate_form s f \<noteq> [] then (Inl (FieldInvalid (validate_form s f)), s)
               else
                 let p = \<lparr>pid = next_pid s, name = strip (form_name f),
                          description = strip (form_description f), price = form_price f,
                          category = form_category f,
                          stock = (case form_stock f of None \<Rightarrow> 0 | Some n \<Rightarrow> n),
                          seller = uid u\<rparr>
                 in (Inr p, s\<lparr>products := p # products s, next_pid := Suc (next_pid s)\<rparr>)))"

section \<open>The accounts (UserViewSet)\<close>

text \<open>
  \<^verbatim>\<open>User.objects.filter(id=self.request.user.id)\<close>; an anonymous user has no id,
  and no row matches.
\<close>

definition user_get_queryset :: "store \<Rightarrow> user option \<Rightarrow> user list" where
  "user_get_queryset s c = filter (\<lambda>u. Some (uid u) = map_option uid c) (users s)"

text \<open>
  What \<^verbatim>\<open>retrieve\<close>, \<^verbatim>\<open>update\<close> and \<^verbatim>\<open>destroy\<close> start with: the
  permission classes, then the lookup of the primary key in the queryset.
\<close>

definition user_get_object :: "store \<Rightarrow> user option \<Rightarrow> nat \<Rightarrow> error + user" where
  "user_get_object s c pk =
     (case check_permissions user_permission_classes c of
        Some e \<Rightarrow> Inl e
      | None \<Rightarrow>
          (case find (\<lambda>u. uid u = pk) (user_get_queryset s c) of
             None \<Rightarrow> Inl NotFound
           | Some u \<Rightarrow> Inr u))"

text \<open>
  Deleting an account deletes its products and its purchases, and with the products
  their orders: the three foreign keys are all \<^verbatim>\<open>on_delete=models.CASCADE\<close>.
\<close>

definition delete_user :: "store \<Rightarrow> nat \<Rightarrow> store" where
  "delete_user s k =
     (let gone = map pid (filter (\<lambda>p. seller p = k) (products s)) in
      s\<lparr>users := filter (\<lambda>u. uid u \<noteq> k) (users s),
        products := filter (\<lambda>p. seller p \<noteq> k) (products s),
        orders := filter (\<lambda>r. buyer r \<noteq> k \<and> product r \<notin> set gone) (orders s)\<rparr>)"

definition user_destroy :: "store \<Rightarrow> user option \<Rightarrow> nat \<Rightarrow> (error + unit) \<times> store" where
  "user_destroy s c pk =
     (case user_get_object s c pk of
        Inl e \<Rightarrow> (Inl e, s)
      | Inr u \<Rightarrow> (Inr (), delete_user s (uid u)))"

section \<open>The orders (SoldProductViewSet)\<close>

text \<open>
  \<^verbatim>\<open>get_queryset\<close>: every order for \<^verbatim>\<open>list\<close> and \<^verbatim>\<open>retrieve\<close>; for the
  other actions the orders of the caller's products when the caller is a seller, the
  caller's own purchases otherwise, and none for an anonymous caller.
\<close>

definition sold_get_queryset :: "store \<Rightarrow> action \<Rightarrow> user option \<Rightarrow> sold_product list" where
  "sold_get_queryset s a c =
     (if a \<in> {List_action, Retrieve} then orders s
      else
        (case c of
           Some u \<Rightarrow>
             if is_seller u
             then filter (\<lambda>r. list_ex (\<lambda>p. pid p = product r \<and> seller p = uid u) (products s))
                    (orders s)
             else filter (\<lambda>r. buyer r = uid u) (orders s)
         | None \<Rightarrow> []))"

definition sold_get_object :: "store \<Rightarrow> action \<Rightarrow> user option \<Rightarrow> nat \<Rightarrow> sold_product option" where
  "sold_get_object s a c k = find (\<lambda>r. oid r = k) (sold_get_queryset s a c)"

text \<open>
  \<^verbatim>\<open>SoldProductViewSet\<close> is a \<^verbatim>\<open>ModelViewSet\<close> and the router registers it, so an
  order can be deleted and updated through it. \<^verbatim>\<open>DELETE /sold-products/<id>/\<close>
  deletes the order when the caller's queryset holds it.
\<close>

definition sold_destroy :: "store \<Rightarrow> user option \<Rightarrow> nat \<Rightarrow> (error + unit) \<times> store" where
  "sold_destroy s c k =
     (case check_permissions (sold_get_permissions Destroy) c of
        Some e \<Rightarrow> (Inl e, s)
      | None \<Rightarrow>
          (case sold_get_object s Destroy c k of
             None \<Rightarrow> (Inl NotFound, s)
           | Some r \<Rightarrow> (Inr (), s\<lparr>orders := filter (\<lambda>x. oid x \<noteq> oid r) (orders s)\<rparr>)))"

text \<open>
  \<^verbatim>\<open>PATCH\<close> and \<^verbatim>\<open>PUT\<close> of an order validate the fields sent as the purchase
  does and save them on the row; \<^verbatim>\<open>perform_update\<close> is not overridden, so no stock
  is checked or moved.
\<close>

record sold_patch =
  spatch_product_id :: "nat option"
  spatch_quantity :: "int option"
  spatch_total_price :: "int option"
  spatch_status :: "status option"
  spatch_shipping_address :: "string option"

definition validate_sold_patch :: "store \<Rightarrow> sold_patch \<Rightarrow> string list" where
  "validate_sold_patch s d =
     failed_fields
       [(''product_id'', (case spatch_product_id d of None \<Rightarrow> False
                           | Some k \<Rightarrow> (case get_product s k of None \<Rightarrow> True | Some p \<Rightarrow> False))),
        (''quantity'', (case spatch_quantity d of None \<Rightarrow> False
                         | Some q \<Rightarrow> positive_integer_invalid s q)),
        (''total_price'', (case spatch_total_price d of None \<Rightarrow> False
                            | Some v \<Rightarrow> decimal_invalid v)),
        (''shipping_address'', (case spatch_shipping_address d of None \<Rightarrow> False
                                 | Some v \<Rightarrow> text_invalid v))]"

definition apply_sold_patch :: "sold_patch \<Rightarrow> sold_product \<Rightarrow> sold_product" where
  "apply_sold_patch d r =
     \<lparr>oid = oid r,
      product = (case spatch_product_id d of None \<Rightarrow> product r | Some v \<Rightarrow> v),
      buyer = buyer r,
      quantity = (case spatch_quantity d of None \<Rightarrow> quantity r | Some v \<Rightarrow> v),
      total_price = (case spatch_total_price d of None \<Rightarrow> total_price r | Some v \<Rightarrow> v),
      status = (case spatch_status d of None \<Rightarrow> status r | Some v \<Rightarrow> v),
      shipping_address =
        (case spatch_shipping_address d of None \<Rightarrow> shipping_address r | Some v \<Rightarrow> strip v)\<rparr>"

definition sold_update :: "store \<Rightarrow> user option \<Rightarrow> nat \<Rightarrow> sold_patch \<Rightarrow> (error + sold_product) \<times> store" where
  "sold_update s c k d =
     (case check_permissions (sold_get_permissions Partial_update) c of
        Some e \<Rightarrow> (Inl e, s)
      | None \<Rightarrow>
          (case sold_get_object s Partial_update c k of
             None \<Rightarrow> (Inl NotFound, s)
           | Some r \<Rightarrow>
               if validate_sold_patch s d \<noteq> []
               then (Inl (FieldInvalid (validate_sold_patch s d)), s)
               else
                 (Inr (apply_sold_patch d r),
                  s\<lparr>orders := map (\<lambda>x. if oid x = oid r then apply_sold_patch d r else x)
                                 (orders s)\<rparr>)))"

section \<open>The operations of the system (products/urls.py)\<close>

text \<open>
  The router gives the three view sets their standard actions, and
  \<^verbatim>\<open>UserViewSet\<close> adds \<^verbatim>\<open>register\<close>, \<^verbatim>\<open>login\<close>, \<^verbatim>\<open>logout\<close> and
  \<^verbatim>\<open>current_user\<close>. What each does to the store:
  \<^item> \<open>Read\<close> is any \<^verbatim>\<open>list\<close>, \<^verbatim>\<open>retrieve\<close> or \<^verbatim>\<open>current_user\<close>, and
    \<^verbatim>\<open>logout\<close>: nothing is written to the three tables;
  \<^item> \<open>Account_write\<close> is \<^verbatim>\<open>register\<close>, \<^verbatim>\<open>login\<close> and the \<^verbatim>\<open>create\<close> and
    \<^verbatim>\<open>update\<close> of an account: they write rows of the user table and nothing else
    (\<^verbatim>\<open>User.objects.create_user\<close>, \<^verbatim>\<open>login\<close>, \<^verbatim>\<open>serializer.save()\<close> on a
    user). Their validation is the framework's and is not modelled: the operation is
    given by the user table it leaves, whatever that is;
  \<^item> the others are the operations defined above.
\<close>

datatype operation =
    Read
  | Account_write "user list"
  | User_destroy nat
  | Product_create product_form
  | Product_update "string option" nat product_patch
  | Product_destroy "string option" nat
  | Sold_create purchase_request
  | Sold_update nat sold_patch
  | Sold_destroy nat

fun run :: "store \<Rightarrow> user option \<Rightarrow> operation \<Rightarrow> store" where
  "run s c Read = s"
| "run s c (Account_write us) = s\<lparr>users := us\<rparr>"
| "run s c (User_destroy k) = snd (user_destroy s c k)"
| "run s c (Product_create f) = snd (product_create s c f)"
| "run s c (Product_update cat k d) = snd (product_update s c cat k d)"
| "run s c (Product_destroy cat k) = snd (product_destroy s c cat k)"
| "run s c (Sold_create req) = snd (sold_create s c req)"
| "run s c (Sold_update k d) = snd (sold_update s c k d)"
| "run s c (Sold_destroy k) = snd (sold_destroy s c k)"

section \<open>A small shop to run the operations on\<close>

text \<open>
  Two sellers and a buyer; the first seller owns a fern with three in stock and a trowel
  that is sold out.
\<close>

definition alice :: user where
  "alice = \<lparr>uid = 1, username = ''alice'', is_seller = True\<rparr>"

definition bob :: user where
  "bob = \<lparr>uid = 2, username = ''bob'', is_seller = False\<rparr>"

definition carol :: user where
  "carol = \<lparr>uid = 3, username = ''carol'', is_seller = True\<rparr>"

definition fern :: product where
  "fern = \<lparr>pid = 1, name = ''Fern'', description = ''Boston fern'', price = 1250,
           category = ''Plants'', stock = 3, seller = 1\<rparr>"

definition trowel :: product where
  "trowel = \<lparr>pid = 2, name = ''Trowel'', description = ''Hand trowel'', price = 800,
           category = ''Gardening Tools'', stock = 0, seller = 1\<rparr>"

definition shop :: store where
  "shop = \<lparr>users = [carol, bob, alice], products = [trowel, fern], orders = [],
            next_pid = 3, next_oid = 1, integer_max = 9223372036854775807\<rparr>"

definition buy :: "nat \<Rightarrow> int \<Rightarrow> int \<Rightarrow> purchase_request" where
  "buy k q t = \<lparr>req_product_id = k, req_quantity = Some q, req_total_price = t,
               req_status = None, req_shipping_address = ''12 Garden Lane''\<rparr>"

definition fern_order :: sold_product where
  "fern_order = \<lparr>oid = 1, product = 1, buyer = 2, quantity = 2, total_price = 2500,
                 status = Pending, shipping_address = ''12 Garden Lane''\<rparr>"

definition shop_sold :: store where
  "shop_sold = \<lparr>users = [carol, bob, alice], products = [trowel, fern\<lparr>stock := 1\<rparr>],
                orders = [fern_order], next_pid = 3, next_oid = 2,
                integer_max = 9223372036854775807\<rparr>"

definition reprice :: "int \<Rightarrow> product_patch" where
  "reprice v = \<lparr>patch_name = None, patch_description = None, patch_price = Some v,
                patch_category = None, patch_stock = None\<rparr>"

definition rush :: purchase_request where
  "rush = \<lparr>req_product_id = 1, req_quantity = Some 1, req_total_price = 1250,
           req_status = Some Delivered, req_shipping_address = ''12 Garden Lane''\<rparr>"

definition no_address :: "int \<Rightarrow> purchase_request" where
  "no_address q = \<lparr>req_product_id = 1, req_quantity = Some q, req_total_price = 1250 * q,
                    req_status = None, req_shipping_address = ''  ''\<rparr>"

definition rename :: "string \<Rightarrow> product_patch" where
  "rename v = \<lparr>patch_name = Some v, patch_description = None, patch_price = None,
               patch_category = None, patch_stock = None\<rparr>"

section \<open>Properties of the purchase\<close>

declare str_nat.simps [simp del]

lemma find_pid: "find (\<lambda>p. pid p = k) ps = Some p \<Longrightarrow> pid p = k \<and> p \<in> set ps"
  by (induction ps) (auto split: if_splits)

lemma find_map_replace:
  "find (\<lambda>p. pid p = k) ps = Some p \<Longrightarrow> pid p' = k \<Longrightarrow>
   find (\<lambda>p. pid p = k) (map (\<lambda>r. if pid r = k then p' else r) ps) = Some p'"
  by (induction ps) (auto split: if_splits)

lemma save_product_found:
  "find (\<lambda>r. pid r = pid p') ps = Some p \<Longrightarrow>
   save_product p' ps = map (\<lambda>r. if pid r = pid p' then p' else r) ps"
  by (auto simp: save_product_def list_ex_iff dest: find_pid)

lemma sold_create_failure:
  "fst (sold_create s c req) = Inl e \<Longrightarrow> snd (sold_create s c req) = s"
  by (auto simp: sold_create_def perform_create_def serializer_save_def Let_def
      split: option.splits sum.splits if_splits prod.splits)

lemma failed_fields_Nil: "failed_fields checks = [] \<longleftrightarrow> (\<forall>x\<in>set checks. \<not> snd x)"
  by (simp add: failed_fields_def filter_empty_conv)

lemma purchase_errors_Nil:
  "purchase_errors s req = [] \<longleftrightarrow>
     get_product s (req_product_id req) \<noteq> None
     \<and> (\<forall>q. req_quantity req = Some q \<longrightarrow> 0 \<le> q \<and> q \<le> integer_max s)
     \<and> \<bar>req_total_price req\<bar> < 10000000000
     \<and> \<not> text_invalid (req_shipping_address req)"
  by (auto simp: purchase_errors_def failed_fields_Nil positive_integer_invalid_def
      decimal_invalid_def split: option.splits)

lemma run_validation_Inr:
  assumes "run_validation s req = Inr vd"
  shows "purchase_errors s req = []
       \<and> (\<exists>p. get_product s (req_product_id req) = Some p
            \<and> vd = \<lparr>vd_product = p, vd_quantity = req_quantity req,
                     vd_total_price = req_total_price req, vd_status = req_status req,
                     vd_shipping_address = strip (req_shipping_address req)\<rparr>)"
  using assms by (auto simp: run_validation_def split: if_splits option.splits)

lemma run_validation_ok:
  assumes "purchase_errors s req = []"
  shows "\<exists>p. get_product s (req_product_id req) = Some p
       \<and> run_validation s req =
           Inr \<lparr>vd_product = p, vd_quantity = req_quantity req,
                vd_total_price = req_total_price req, vd_status = req_status req,
                vd_shipping_address = strip (req_shipping_address req)\<rparr>"
proof -
  from assms have "get_product s (req_product_id req) \<noteq> None"
    by (simp add: purchase_errors_Nil)
  then obtain p where "get_product s (req_product_id req) = Some p" by blast
  with assms show ?thesis by (simp add: run_validation_def)
qed


lemma serializer_save_products:
  "products (snd (serializer_save s vd u)) = products s"
  by (simp add: serializer_save_def Let_def)

lemma perform_create_ok:
  assumes "vd_quantity vd = Some q" and "\<not> stock (vd_product vd) < q"
  shows "perform_create s u vd =
    (Inr (fst (serializer_save
             (s\<lparr>products := save_product ((vd_product vd)\<lparr>stock := stock (vd_product vd) - q\<rparr>)
                 (products s)\<rparr>) vd u)),
     snd (serializer_save
             (s\<lparr>products := save_product ((vd_product vd)\<lparr>stock := stock (vd_product vd) - q\<rparr>)
                 (products s)\<rparr>) vd u))"
  using assms by (simp add: perform_create_def Let_def split: prod.splits)

lemma sold_create_valid:
  "run_validation s req = Inr vd \<Longrightarrow> sold_create s (Some u) req = perform_create s u vd"
  by (simp add: sold_create_def sold_get_permissions_def)




text \<open>
  Claim C3, as the code has it. A request for a quantity within the stock is still
  refused when one of its fields does not validate, and then nothing is written. First
  such a request: one fern of three, with a blank shipping address; the stock stays at
  three and no order is created.
\<close>

theorem purchase_decrements_stock_counterexample:
  "get_product shop (req_product_id (no_address 1)) = Some fern
   \<and> req_quantity (no_address 1) = Some 1 \<and> 1 \<le> stock fern
   \<and> fst (sold_create shop (Some bob) (no_address 1)) = Inl (FieldInvalid [''shipping_address''])
   \<and> map stock (products (snd (sold_create shop (Some bob) (no_address 1)))) = [0, 3]
   \<and> orders (snd (sold_create shop (Some bob) (no_address 1))) = []"
  by code_simp

text \<open>
  Claim C3, amended: a purchase request by an authenticated caller whose fields
  validate and whose quantity is at most the product's stock succeeds; the product row
  is saved with its stock lowered by exactly that quantity and every other row is
  untouched. A quantity equal to the stock succeeds and leaves the stock at exactly 0.
\<close>

theorem purchase_decrements_stock:
  assumes "purchase_errors s req = []"
    and "get_product s (req_product_id req) = Some p"
    and "req_quantity req = Some q"
    and "q \<le> stock p"
  shows "\<exists>order s'. sold_create s (Some u) req = (Inr order, s')
           \<and> products s' =
               map (\<lambda>r. if pid r = pid p then p\<lparr>stock := stock p - q\<rparr> else r) (products s)
           \<and> get_product s' (req_product_id req) = Some (p\<lparr>stock := stock p - q\<rparr>)
           \<and> (q = stock p \<longrightarrow> map_option stock (get_product s' (req_product_id req)) = Some 0)"
proof -
  define p' where "p' = p\<lparr>stock := stock p - q\<rparr>"
  define k where "k = req_product_id req"
  define vd where "vd = \<lparr>vd_product = p, vd_quantity = Some q,
          vd_total_price = req_total_price req,
          vd_status = req_status req,
          vd_shipping_address = strip (req_shipping_address req)\<rparr>"
  define s1 where "s1 = s\<lparr>products := save_product p' (products s)\<rparr>"
  from assms(2) have f: "find (\<lambda>r. pid r = k) (products s) = Some p"
    by (simp add: get_product_def k_def)
  then have kp: "pid p = k" by (rule find_pid [THEN conjunct1])
  have kp': "pid p' = k" using kp by (simp add: p'_def)
  from f kp' have "save_product p' (products s) =
      map (\<lambda>r. if pid r = pid p' then p' else r) (products s)"
    using save_product_found [of p' "products s" p] by simp
  with kp kp' have sv: "save_product p' (products s) =
      map (\<lambda>r. if pid r = pid p then p' else r) (products s)"
    by simp
  from f kp' have "find (\<lambda>r. pid r = k)
      (map (\<lambda>r. if pid r = k then p' else r) (products s)) = Some p'"
    by (rule find_map_replace)
  with kp sv have fd: "find (\<lambda>r. pid r = k) (save_product p' (products s)) = Some p'"
    by simp
  from run_validation_ok [OF assms(1)] assms(2,3) have rv: "run_validation s req = Inr vd"
    by (simp add: vd_def)
  have vq: "vd_quantity vd = Some q" and vp: "vd_product vd = p" by (simp_all add: vd_def)
  from assms(4) vp have ns: "\<not> stock (vd_product vd) < q" by simp
  have pc: "perform_create s u vd =
      (Inr (fst (serializer_save s1 vd u)), snd (serializer_save s1 vd u))"
    using perform_create_ok [OF vq ns, of s u] by (simp only: vp s1_def p'_def)
  have sc: "sold_create s (Some u) req =
      (Inr (fst (serializer_save s1 vd u)), snd (serializer_save s1 vd u))"
    using sold_create_valid [OF rv, of u] pc by simp
  have pr: "products (snd (serializer_save s1 vd u)) = save_product p' (products s)"
    by (simp add: serializer_save_products s1_def)
  have c2: "products (snd (serializer_save s1 vd u)) =
      map (\<lambda>r. if pid r = pid p then p' else r) (products s)"
    using pr sv by simp
  have c3: "get_product (snd (serializer_save s1 vd u)) k = Some p'"
    using pr fd by (simp add: get_product_def)
  have c4: "q = stock p \<longrightarrow>
      map_option stock (get_product (snd (serializer_save s1 vd u)) k) = Some 0"
    using c3 by (simp add: p'_def)
  from sc c2 c3 c4 show ?thesis unfolding p'_def k_def by blast
qed

theorem purchase_decrements_stock_witness:
  "purchase_errors shop (buy 1 3 3750) = []
   \<and> get_product shop (req_product_id (buy 1 3 3750)) = Some fern
   \<and> req_quantity (buy 1 3 3750) = Some 3 \<and> 3 \<le> stock fern
   \<and> (\<exists>order s'. sold_create shop (Some bob) (buy 1 3 3750) = (Inr order, s')
           \<and> products s' =
               map (\<lambda>r. if pid r = pid fern then fern\<lparr>stock := stock fern - 3\<rparr> else r)
                 (products shop)
           \<and> get_product s' (req_product_id (buy 1 3 3750))
               = Some (fern\<lparr>stock := stock fern - 3\<rparr>)
           \<and> (3 = stock fern \<longrightarrow>
                 map_option stock (get_product s' (req_product_id (buy 1 3 3750))) = Some 0))
   \<and> map stock (products (snd (sold_create shop (Some bob) (buy 1 3 3750)))) = [0, 0]"
proof -
  have h0: "purchase_errors shop (buy 1 3 3750) = []" by code_simp
  have h1: "get_product shop (req_product_id (buy 1 3 3750)) = Some fern" by code_simp
  have h2: "req_quantity (buy 1 3 3750) = Some 3" by code_simp
  have h4: "3 \<le> stock fern" by code_simp
  have v: "map stock (products (snd (sold_create shop (Some bob) (buy 1 3 3750)))) = [0, 0]"
    by code_simp
  note r = purchase_decrements_stock [OF h0 h1 h2 h4, of bob]
  from h0 h1 h2 h4 r v show ?thesis by (intro conjI)
qed

lemma sold_create_stock_nonneg:
  assumes "stock_nonneg s"
  shows "stock_nonneg (snd (sold_create s c req))"
proof (cases "fst (sold_create s c req)")
  case (Inl e)
  then show ?thesis using assms by (simp add: sold_create_failure)
next
  case (Inr order)
  then show ?thesis using assms
    by (auto simp: sold_create_def perform_create_def serializer_save_def Let_def
        stock_nonneg_def save_product_def list_all_iff
        split: option.splits sum.splits if_splits)
qed

lemma purchases_stock_nonneg:
  "stock_nonneg s \<Longrightarrow> stock_nonneg (purchases s rs)"
  by (induction s rs rule: purchases.induct) (simp_all add: sold_create_stock_nonneg)

text \<open>
  Claim C4. When every product's stock is at least 0, it still is after every
  operation of any sequence of purchase requests, whether each succeeds or fails.
\<close>

theorem stock_never_negative:
  "stock_nonneg s \<Longrightarrow> stock_nonneg (purchases s (take n rs))"
  by (rule purchases_stock_nonneg)

theorem stock_never_negative_witness:
  "stock_nonneg shop
   \<and> stock_nonneg (purchases shop
        (take 2 [(Some bob, buy 1 2 2500), (Some carol, buy 1 5 6250), (None, buy 2 1 800)]))
   \<and> map stock (products (purchases shop
        (take 2 [(Some bob, buy 1 2 2500), (Some carol, buy 1 5 6250), (None, buy 2 1 800)])))
       = [0, 1]"
proof -
  have h: "stock_nonneg shop" by code_simp
  have "map stock (products (purchases shop
        (take 2 [(Some bob, buy 1 2 2500), (Some carol, buy 1 5 6250), (None, buy 2 1 800)])))
       = [0, 1]"
    by code_simp
  with h stock_never_negative [OF h, of 2
      "[(Some bob, buy 1 2 2500), (Some carol, buy 1 5 6250), (None, buy 2 1 800)]"]
  show ?thesis by simp
qed

section \<open>What an order records\<close>

lemma sold_create_success:
  assumes "fst (sold_create s c req) = Inr order"
  shows "\<exists>u p q. c = Some u \<and> get_product s (req_product_id req) = Some p
           \<and> purchase_errors s req = []
           \<and> req_quantity req = Some q \<and> 0 \<le> q \<and> q \<le> stock p
           \<and> order = \<lparr>oid = next_oid s, product = pid p, buyer = uid u, quantity = q,
                 total_price = req_total_price req,
                 status = (case req_status req of None \<Rightarrow> Pending | Some st \<Rightarrow> st),
                 shipping_address = strip (req_shipping_address req)\<rparr>
           \<and> orders (snd (sold_create s c req)) = order # orders s"
proof -
  from assms obtain u where c: "c = Some u"
    by (cases c) (auto simp: sold_create_def sold_get_permissions_def)
  from assms c obtain vd where rv: "run_validation s req = Inr vd"
    by (cases "run_validation s req") (auto simp: sold_create_def sold_get_permissions_def)
  with c have sc: "sold_create s c req = perform_create s u vd" by (simp add: sold_create_valid)
  from run_validation_Inr [OF rv] obtain p where pe: "purchase_errors s req = []"
    and p: "get_product s (req_product_id req) = Some p"
    and vd: "vd = \<lparr>vd_product = p, vd_quantity = req_quantity req,
          vd_total_price = req_total_price req, vd_status = req_status req,
          vd_shipping_address = strip (req_shipping_address req)\<rparr>"
    by blast
  from assms sc obtain q where q: "vd_quantity vd = Some q"
    by (cases "vd_quantity vd") (auto simp: perform_create_def)
  with vd have rq: "req_quantity req = Some q" by simp
  with pe have q0: "0 \<le> q" by (simp add: purchase_errors_Nil)
  from assms sc q vd have ns: "\<not> stock (vd_product vd) < q"
    by (auto simp: perform_create_def split: if_splits)
  from perform_create_ok [OF q ns, of s u] sc assms vd rq
  have o: "order = \<lparr>oid = next_oid s, product = pid p, buyer = uid u, quantity = q,
                 total_price = req_total_price req,
                 status = (case req_status req of None \<Rightarrow> Pending | Some st \<Rightarrow> st),
                 shipping_address = strip (req_shipping_address req)\<rparr>"
    by (simp add: serializer_save_def Let_def)
  from perform_create_ok [OF q ns, of s u] sc vd o rq
  have os: "orders (snd (sold_create s c req)) = order # orders s"
    by (simp add: serializer_save_def Let_def)
  from ns vd have "q \<le> stock p" by simp
  with c p pe rq q0 o os show ?thesis by blast
qed

lemma product_update_orders:
  "orders (snd (product_update s c cat pk d)) = orders s"
  by (simp add: product_update_def split: option.splits)

text \<open>
  Claim C2, as the code has it. The total price of the order a successful purchase
  creates is the \<^verbatim>\<open>total_price\<close> the request supplied:
  \<^verbatim>\<open>perform_create\<close> never multiplies the product's price by the quantity. The
  order is stored with that value, and a later update of the product, its price
  included, leaves every stored order as it is. First the request that shows the
  difference: two ferns at 12.50 bought with a total price of 0.01.
\<close>

theorem purchase_total_price_counterexample:
  "fst (sold_create shop (Some bob) (buy 1 2 1)) =
     Inr \<lparr>oid = 1, product = 1, buyer = 2, quantity = 2, total_price = 1,
          status = Pending, shipping_address = ''12 Garden Lane''\<rparr>
   \<and> map_option price (get_product shop 1) = Some 1250
   \<and> (1::int) \<noteq> 1250 * 2"
  by code_simp

text \<open>
  Claim C2, amended: the order's total price is the one the request supplied, the order
  is stored, and no later product update changes the stored orders.
\<close>

theorem purchase_total_price:
  assumes "fst (sold_create s c req) = Inr order"
  shows "total_price order = req_total_price req
         \<and> orders (snd (sold_create s c req)) = order # orders s
         \<and> orders (snd (product_update (snd (sold_create s c req)) c' cat pk d))
             = order # orders s"
  using sold_create_success [OF assms] by (auto simp: product_update_orders)

theorem purchase_total_price_witness:
  "fst (sold_create shop (Some bob) (buy 1 2 2500)) = Inr fern_order
   \<and> total_price fern_order = req_total_price (buy 1 2 2500)
   \<and> orders (snd (sold_create shop (Some bob) (buy 1 2 2500))) = fern_order # orders shop
   \<and> orders (snd (product_update (snd (sold_create shop (Some bob) (buy 1 2 2500)))
         (Some alice) None 1 (reprice 9900))) = fern_order # orders shop
   \<and> map price (products (snd (product_update (snd (sold_create shop (Some bob) (buy 1 2 2500)))
         (Some alice) None 1 (reprice 9900)))) = [800, 9900]"
proof -
  have h: "fst (sold_create shop (Some bob) (buy 1 2 2500)) = Inr fern_order" by code_simp
  have v: "map price (products (snd (product_update
         (snd (sold_create shop (Some bob) (buy 1 2 2500)))
         (Some alice) None 1 (reprice 9900)))) = [800, 9900]" by code_simp
  note r = purchase_total_price [OF h, of "Some alice" None 1 "reprice 9900"]
  from h r v show ?thesis by (intro conjI) blast+
qed

text \<open>
  Claim C7, as the code has it. \<^verbatim>\<open>status\<close> is a writable field of the
  serializer, so the order of a successful purchase has the status the request gave,
  and \<^verbatim>\<open>Pending\<close> only when the request gave none; its buyer is always the
  authenticated caller. First a request that asks for \<^verbatim>\<open>Delivered\<close> and gets it.
\<close>

theorem purchase_status_counterexample:
  "fst (sold_create shop (Some bob) rush) =
     Inr \<lparr>oid = 1, product = 1, buyer = 2, quantity = 1, total_price = 1250,
          status = Delivered, shipping_address = ''12 Garden Lane''\<rparr>
   \<and> Delivered \<noteq> Pending"
  by code_simp

text \<open>
  Claim C7, amended: the status is the requested one, \<^verbatim>\<open>Pending\<close> by default, and
  the buyer is the caller.
\<close>

theorem purchase_status_buyer:
  assumes "fst (sold_create s c req) = Inr order"
  shows "status order = (case req_status req of None \<Rightarrow> Pending | Some st \<Rightarrow> st)
         \<and> map_option uid c = Some (buyer order)"
  using sold_create_success [OF assms] by auto

theorem purchase_status_buyer_witness:
  "fst (sold_create shop (Some bob) (buy 1 2 2500)) = Inr fern_order
   \<and> status fern_order = (case req_status (buy 1 2 2500) of None \<Rightarrow> Pending | Some st \<Rightarrow> st)
   \<and> map_option uid (Some bob) = Some (buyer fern_order)
   \<and> status fern_order = Pending \<and> buyer fern_order = uid bob"
proof -
  have h: "fst (sold_create shop (Some bob) (buy 1 2 2500)) = Inr fern_order" by code_simp
  have v: "status fern_order = Pending" "buyer fern_order = uid bob" by code_simp+
  note r = purchase_status_buyer [OF h]
  from h r v show ?thesis by (intro conjI) blast+
qed







section \<open>Properties of the accounts\<close>

lemma filter_uid_distinct:
  "distinct (map uid us) \<Longrightarrow> u \<in> set us \<Longrightarrow> filter (\<lambda>v. uid v = uid u) us = [u]"
proof (induction us)
  case Nil
  then show ?case by simp
next
  case (Cons a us)
  show ?case
  proof (cases "a = u")
    case True
    with Cons.prems have "uid u \<notin> uid ` set us" by simp
    then have "\<forall>v\<in>set us. uid v \<noteq> uid u" by (metis imageI)
    then have "filter (\<lambda>v. uid v = uid u) us = []" by (simp add: filter_empty_conv)
    with True show ?thesis by simp
  next
    case False
    with Cons.prems have u: "u \<in> set us" and "uid a \<noteq> uid u" by auto
    with Cons.IH Cons.prems show ?thesis by simp
  qed
qed

lemma user_get_queryset_self:
  assumes "distinct (map uid (users s))" and "u \<in> set (users s)"
  shows "user_get_queryset s (Some u) = [u]"
proof -
  have "user_get_queryset s (Some u) = filter (\<lambda>v. uid v = uid u) (users s)"
    by (simp add: user_get_queryset_def)
  with assms show ?thesis by (simp add: filter_uid_distinct)
qed

text \<open>
  Claim C10. For an authenticated caller whose account is in the user table (ids being
  unique), the queryset of the users resource is exactly the caller's own record; the
  detail lookup that retrieve, update and delete start with finds the caller under the
  caller's own id, and under any other id answers not found, leaving the store as it
  was.
\<close>

theorem user_scope:
  assumes "distinct (map uid (users s))" and "u \<in> set (users s)"
  shows "user_get_queryset s (Some u) = [u]
         \<and> user_get_object s (Some u) (uid u) = Inr u
         \<and> (\<forall>pk. pk \<noteq> uid u \<longrightarrow>
               user_get_object s (Some u) pk = Inl NotFound
               \<and> user_destroy s (Some u) pk = (Inl NotFound, s))"
proof -
  from assms have q: "user_get_queryset s (Some u) = [u]" by (rule user_get_queryset_self)
  then have a: "user_get_object s (Some u) (uid u) = Inr u"
    by (simp add: user_get_object_def user_permission_classes_def)
  from q have b: "pk \<noteq> uid u \<Longrightarrow> user_get_object s (Some u) pk = Inl NotFound" for pk
    by (simp add: user_get_object_def user_permission_classes_def)
  then have c: "pk \<noteq> uid u \<Longrightarrow> user_destroy s (Some u) pk = (Inl NotFound, s)" for pk
    by (simp add: user_destroy_def)
  from q a b c show ?thesis by blast
qed

theorem user_scope_witness:
  "distinct (map uid (users shop)) \<and> bob \<in> set (users shop)
   \<and> user_get_queryset shop (Some bob) = [bob]
   \<and> user_get_object shop (Some bob) (uid bob) = Inr bob
   \<and> user_get_object shop (Some bob) (uid alice) = Inl NotFound
   \<and> user_destroy shop (Some bob) (uid alice) = (Inl NotFound, shop)"
proof -
  have h1: "distinct (map uid (users shop))" by code_simp
  have h2: "bob \<in> set (users shop)" by code_simp
  have n: "uid alice \<noteq> uid bob" by code_simp
  note r = user_scope [OF h1 h2]
  from r have r1: "user_get_queryset shop (Some bob) = [bob]" by (rule conjunct1)
  from r have r2: "user_get_object shop (Some bob) (uid bob) = Inr bob" by blast
  from r n have r3: "user_get_object shop (Some bob) (uid alice) = Inl NotFound" by blast
  from r n have r4: "user_destroy shop (Some bob) (uid alice) = (Inl NotFound, shop)" by blast
  from h1 h2 r1 r2 r3 r4 show ?thesis by (intro conjI)
qed

section \<open>Properties of the catalog\<close>

lemma check_seller_ok:
  "is_seller u \<Longrightarrow> a \<notin> {List_action, Retrieve} \<Longrightarrow>
   check_permissions (product_get_permissions a) (Some u) = None"
  by (simp add: product_get_permissions_def)

lemma check_seller_refused:
  "c = None \<or> (\<exists>v. c = Some v \<and> \<not> is_seller v) \<Longrightarrow> a \<notin> {List_action, Retrieve} \<Longrightarrow>
   \<exists>e. check_permissions (product_get_permissions a) c = Some e"
  by (auto simp: product_get_permissions_def)

lemma check_seller_passed:
  "check_permissions (product_get_permissions a) c = None \<Longrightarrow> a \<notin> {List_action, Retrieve} \<Longrightarrow>
   \<exists>u. c = Some u \<and> is_seller u"
  by (cases c) (auto simp: product_get_permissions_def split: if_splits)

text \<open>
  Claim C5, as the code has it. \<^verbatim>\<open>get_queryset\<close> gives an authenticated seller
  every product, not only the seller's own: a seller who browses sees the products of
  other sellers too, those with stock 0 included. First the listing that shows it: a
  second seller sees the first seller's sold-out trowel.
\<close>

theorem catalog_other_seller_counterexample:
  "product_list shop (Some carol) None = Inr [trowel, fern]
   \<and> is_seller carol \<and> seller trowel \<noteq> uid carol \<and> \<not> 0 < stock trowel"
  by code_simp

text \<open>
  Claim C5, amended: an authenticated seller's list is every product, whoever owns it
  and whatever its stock (so it has all of the seller's own products, those with stock
  0 included); the list of any other caller, anonymous or a buyer, is the products with
  stock above 0; in both cases only those of the requested category when the request
  names one. In particular no product with stock 0 is in an anonymous caller's list.
\<close>

theorem catalog_visibility:
  "(is_seller u \<longrightarrow>
      product_list s (Some u) cat =
        Inr (filter (\<lambda>p. cat = None \<or> cat = Some [] \<or> cat = Some (category p)) (products s)))
   \<and> (c = None \<or> (\<exists>v. c = Some v \<and> \<not> is_seller v) \<longrightarrow>
      product_list s c cat =
        Inr (filter (\<lambda>p. 0 < stock p \<and> (cat = None \<or> cat = Some [] \<or> cat = Some (category p)))
               (products s)))
   \<and> (\<forall>ps. product_list s None cat = Inr ps \<longrightarrow> (\<forall>p\<in>set ps. stock p \<noteq> 0))"
proof (intro conjI impI allI)
  assume "is_seller u"
  then show "product_list s (Some u) cat =
        Inr (filter (\<lambda>p. cat = None \<or> cat = Some [] \<or> cat = Some (category p)) (products s))"
    by (cases cat)
      (auto simp: product_list_def product_get_permissions_def product_get_queryset_def
        Let_def intro!: filter_cong)
next
  assume "c = None \<or> (\<exists>v. c = Some v \<and> \<not> is_seller v)"
  then show "product_list s c cat =
        Inr (filter (\<lambda>p. 0 < stock p \<and> (cat = None \<or> cat = Some [] \<or> cat = Some (category p)))
               (products s))"
    by (cases cat)
      (auto simp: product_list_def product_get_permissions_def product_get_queryset_def
        Let_def intro!: filter_cong)
next
  fix ps
  assume "product_list s None cat = Inr ps"
  then show "\<forall>p\<in>set ps. stock p \<noteq> 0"
    by (cases cat)
      (auto simp: product_list_def product_get_permissions_def product_get_queryset_def
        Let_def split: if_splits)
qed

theorem catalog_visibility_witness:
  "is_seller alice
   \<and> product_list shop (Some alice) None = Inr (products shop)
   \<and> products shop = [trowel, fern] \<and> seller trowel = uid alice \<and> stock trowel = 0
   \<and> \<not> is_seller bob
   \<and> product_list shop (Some bob) None = Inr (filter (\<lambda>p. 0 < stock p) (products shop))
   \<and> product_list shop (Some bob) None = Inr [fern]
   \<and> product_list shop None None = Inr [fern]
   \<and> stock fern \<noteq> 0"
proof -
  have h1: "is_seller alice" by code_simp
  have h2: "\<not> is_seller bob" by code_simp
  have h3: "product_list shop None None = Inr [fern]" by code_simp
  have v1: "products shop = [trowel, fern]" by code_simp
  have v2: "seller trowel = uid alice" by code_simp
  have v3: "stock trowel = 0" by code_simp
  have v4: "product_list shop (Some bob) None = Inr [fern]" by code_simp
  from catalog_visibility [of alice shop None "Some bob"] h1
  have r1: "product_list shop (Some alice) None = Inr (products shop)" by simp
  from catalog_visibility [of alice shop None "Some bob"] h2
  have r2: "product_list shop (Some bob) None =
      Inr (filter (\<lambda>p. 0 < stock p) (products shop))" by simp
  from catalog_visibility [of alice shop None "Some bob"] h3
  have r3: "stock fern \<noteq> 0" by simp
  from h1 h2 h3 v1 v2 v3 v4 r1 r2 r3 show ?thesis by (intro conjI)
qed

lemma product_destroy_refused:
  assumes "c = None \<or> (\<exists>v. c = Some v \<and> \<not> is_seller v)"
  shows "\<exists>e. product_destroy s c cat pk = (Inl e, s)"
proof -
  from assms obtain e where "check_permissions (product_get_permissions Destroy) c = Some e"
    using check_seller_refused [of c Destroy] by auto
  then show ?thesis by (simp add: product_destroy_def)
qed

lemma product_update_refused:
  assumes "c = None \<or> (\<exists>v. c = Some v \<and> \<not> is_seller v)"
  shows "\<exists>e. product_update s c cat pk d = (Inl e, s)"
proof -
  from assms obtain e where
    "check_permissions (product_get_permissions Partial_update) c = Some e"
    using check_seller_refused [of c Partial_update] by auto
  then show ?thesis by (simp add: product_update_def)
qed

lemma product_destroy_caller:
  assumes "fst (product_destroy s c cat pk) = Inr x"
  shows "\<exists>u. c = Some u \<and> is_seller u"
proof -
  from assms have "check_permissions (product_get_permissions Destroy) c = None"
    by (cases "check_permissions (product_get_permissions Destroy) c")
      (simp_all add: product_destroy_def)
  then show ?thesis by (rule check_seller_passed) simp
qed

lemma product_update_caller:
  assumes "fst (product_update s c cat pk d) = Inr p'"
  shows "\<exists>u. c = Some u \<and> is_seller u"
proof -
  from assms have "check_permissions (product_get_permissions Partial_update) c = None"
    by (cases "check_permissions (product_get_permissions Partial_update) c")
      (simp_all add: product_update_def)
  then show ?thesis by (rule check_seller_passed) simp
qed

lemma seller_get_object:
  "is_seller u \<Longrightarrow> product_get_object s (Some u) None pk = get_product s pk"
  by (simp add: product_get_object_def product_get_queryset_def get_product_def)

lemma product_destroy_any_seller:
  assumes "is_seller u" and "get_product s pk = Some p"
  shows "product_destroy s (Some u) None pk = (Inr (), delete_product s pk)"
proof -
  from assms(2) have "pid p = pk" unfolding get_product_def by (rule find_pid [THEN conjunct1])
  with assms show ?thesis
    by (simp add: product_destroy_def check_seller_ok seller_get_object)
qed

lemma product_update_any_seller:
  assumes "is_seller u" and "get_product s pk = Some p" and "validate_patch s d = []"
  shows "product_update s (Some u) None pk d =
    (Inr (apply_patch d p), s\<lparr>products := save_product (apply_patch d p) (products s)\<rparr>)"
  using assms by (simp add: product_update_def check_seller_ok seller_get_object)

lemma product_update_invalid:
  assumes "is_seller u" and "get_product s pk = Some p" and "validate_patch s d \<noteq> []"
  shows "product_update s (Some u) None pk d = (Inl (FieldInvalid (validate_patch s d)), s)"
  using assms by (simp add: product_update_def check_seller_ok seller_get_object)

text \<open>
  Claim C6, as the code has it. Update and delete ask for an authenticated seller and
  look the product up in that seller's queryset, which holds every product: nothing
  compares the caller with the product's owner. First the requests that show it: a
  seller who does not own the fern changes its price, and deletes it.
\<close>

theorem product_write_other_seller_counterexample:
  "get_product shop 1 = Some fern \<and> seller fern \<noteq> uid carol
   \<and> fst (product_update shop (Some carol) None 1 (reprice 1)) = Inr (fern\<lparr>price := 1\<rparr>)
   \<and> products (snd (product_update shop (Some carol) None 1 (reprice 1)))
       = [trowel, fern\<lparr>price := 1\<rparr>]
   \<and> fst (product_destroy shop (Some carol) None 1) = Inr ()
   \<and> products (snd (product_destroy shop (Some carol) None 1)) = [trowel]"
  by code_simp

text \<open>
  Claim C6, amended: a product update or delete succeeds only when the caller is an
  authenticated seller; a caller who is anonymous or not a seller is refused and the
  store is unchanged; and any seller, owner or not, deletes any existing product, and
  updates it with data that validates, while data that does not validate is refused
  with the names of its fields and the store unchanged.
\<close>

theorem product_write_sellers_only:
  "(fst (product_destroy s c cat pk) = Inr x \<longrightarrow> (\<exists>u. c = Some u \<and> is_seller u))
   \<and> (fst (product_update s c cat pk d) = Inr p' \<longrightarrow> (\<exists>u. c = Some u \<and> is_seller u))
   \<and> (c = None \<or> (\<exists>v. c = Some v \<and> \<not> is_seller v) \<longrightarrow>
        (\<exists>e. product_destroy s c cat pk = (Inl e, s))
        \<and> (\<exists>e. product_update s c cat pk d = (Inl e, s)))
   \<and> (is_seller w \<and> get_product s pk = Some p \<longrightarrow>
        product_destroy s (Some w) None pk = (Inr (), delete_product s pk)
        \<and> (validate_patch s d = [] \<longrightarrow>
             product_update s (Some w) None pk d =
               (Inr (apply_patch d p),
                s\<lparr>products := save_product (apply_patch d p) (products s)\<rparr>))
        \<and> (validate_patch s d \<noteq> [] \<longrightarrow>
             product_update s (Some w) None pk d =
               (Inl (FieldInvalid (validate_patch s d)), s)))"
proof (intro conjI impI)
  assume "fst (product_destroy s c cat pk) = Inr x"
  then show "\<exists>u. c = Some u \<and> is_seller u" by (rule product_destroy_caller)
next
  assume "fst (product_update s c cat pk d) = Inr p'"
  then show "\<exists>u. c = Some u \<and> is_seller u" by (rule product_update_caller)
next
  assume a: "c = None \<or> (\<exists>v. c = Some v \<and> \<not> is_seller v)"
  then show "\<exists>e. product_destroy s c cat pk = (Inl e, s)" by (rule product_destroy_refused)
  from a show "\<exists>e. product_update s c cat pk d = (Inl e, s)" by (rule product_update_refused)
next
  assume a: "is_seller w \<and> get_product s pk = Some p"
  then show "product_destroy s (Some w) None pk = (Inr (), delete_product s pk)"
    by (simp add: product_destroy_any_seller)
  {
    assume "validate_patch s d = []"
    with a show "product_update s (Some w) None pk d =
               (Inr (apply_patch d p),
                s\<lparr>products := save_product (apply_patch d p) (products s)\<rparr>)"
      by (simp add: product_update_any_seller)
  }
  {
    assume "validate_patch s d \<noteq> []"
    with a show "product_update s (Some w) None pk d =
               (Inl (FieldInvalid (validate_patch s d)), s)"
      by (simp add: product_update_invalid)
  }
qed

theorem product_write_sellers_only_witness:
  "\<not> is_seller bob
   \<and> (\<exists>e. product_destroy shop (Some bob) None 1 = (Inl e, shop))
   \<and> (\<exists>e. product_update shop (Some bob) None 1 (reprice 1) = (Inl e, shop))
   \<and> fst (product_destroy shop (Some bob) None 1) = Inl PermissionDenied
   \<and> fst (product_destroy shop None None 1) = Inl NotAuthenticated
   \<and> is_seller carol \<and> get_product shop 1 = Some fern \<and> validate_patch shop (reprice 1) = []
   \<and> product_destroy shop (Some carol) None 1 = (Inr (), delete_product shop 1)
   \<and> product_update shop (Some carol) None 1 (reprice 1) =
        (Inr (apply_patch (reprice 1) fern),
         shop\<lparr>products := save_product (apply_patch (reprice 1) fern) (products shop)\<rparr>)
   \<and> validate_patch shop (rename ''  '') \<noteq> []
   \<and> product_update shop (Some carol) None 1 (rename ''  '') =
        (Inl (FieldInvalid (validate_patch shop (rename ''  ''))), shop)
   \<and> validate_patch shop (rename ''  '') = [''name'']
   \<and> fst (product_destroy shop (Some carol) None 1) = Inr ()
   \<and> (\<exists>u. Some carol = Some u \<and> is_seller u)"
proof -
  have h1: "\<not> is_seller bob" by code_simp
  have h2: "is_seller carol" by code_simp
  have h3: "get_product shop 1 = Some fern" by code_simp
  have h4: "validate_patch shop (reprice 1) = []" by code_simp
  have h5: "fst (product_destroy shop (Some carol) None 1) = Inr ()" by code_simp
  have h6: "validate_patch shop (rename ''  '') \<noteq> []" by code_simp
  have v1: "fst (product_destroy shop (Some bob) None 1) = Inl PermissionDenied" by code_simp
  have v2: "fst (product_destroy shop None None 1) = Inl NotAuthenticated" by code_simp
  have v3: "validate_patch shop (rename ''  '') = [''name'']" by code_simp
  note r = product_write_sellers_only [of shop "Some bob" None 1 _ "reprice 1" _ carol fern]
  from r h1 have r1: "\<exists>e. product_destroy shop (Some bob) None 1 = (Inl e, shop)"
    and r2: "\<exists>e. product_update shop (Some bob) None 1 (reprice 1) = (Inl e, shop)"
    by blast+
  from r h2 h3 have r3: "product_destroy shop (Some carol) None 1 = (Inr (), delete_product shop 1)"
    by blast
  from r h2 h3 h4 have r4: "product_update shop (Some carol) None 1 (reprice 1) =
        (Inr (apply_patch (reprice 1) fern),
         shop\<lparr>products := save_product (apply_patch (reprice 1) fern) (products shop)\<rparr>)"
    by blast
  from product_write_sellers_only [of shop "Some carol" None 1 "()"] h5
  have r5: "\<exists>u. Some carol = Some u \<and> is_seller u" by blast
  from product_write_sellers_only [of shop _ None 1 _ "rename ''  ''" _ carol fern] h2 h3 h6
  have r6: "product_update shop (Some carol) None 1 (rename ''  '') =
        (Inl (FieldInvalid (validate_patch shop (rename ''  ''))), shop)"
    by blast
  from h1 h2 h3 h4 h5 h6 v1 v2 v3 r1 r2 r3 r4 r5 r6 show ?thesis by (intro conjI)
qed

section \<open>Properties of the order table\<close>

lemma sold_create_orders:
  "set (orders s) \<subseteq> set (orders (snd (sold_create s c req)))"
proof (cases "fst (sold_create s c req)")
  case (Inl e)
  then show ?thesis by (simp add: sold_create_failure)
next
  case (Inr order)
  from sold_create_success [OF this] show ?thesis by auto
qed

lemma product_create_orders:
  "orders (snd (product_create s c f)) = orders s"
  by (simp add: product_create_def Let_def split: option.splits)

lemma product_destroy_orders:
  "orders (snd (product_destroy s c cat pk)) =
     (if fst (product_destroy s c cat pk) = Inr () then filter (\<lambda>r. product r \<noteq> pk) (orders s)
      else orders s)"
proof (cases "check_permissions (product_get_permissions Destroy) c")
  case (Some e)
  then show ?thesis by (simp add: product_destroy_def)
next
  case None
  show ?thesis
  proof (cases "product_get_object s c cat pk")
    case n: None
    with None show ?thesis by (simp add: product_destroy_def)
  next
    case (Some p)
    then have "pid p = pk" unfolding product_get_object_def by (rule find_pid [THEN conjunct1])
    with None Some show ?thesis by (simp add: product_destroy_def delete_product_def)
  qed
qed

lemma find_uid: "find (\<lambda>u. uid u = k) us = Some u \<Longrightarrow> uid u = k"
  by (induction us) (auto split: if_splits)

lemma find_oid: "find (\<lambda>r. oid r = k) rs = Some r \<Longrightarrow> oid r = k"
  by (induction rs) (auto split: if_splits)

lemma user_destroy_orders:
  "orders (snd (user_destroy s c pk)) =
     (if fst (user_destroy s c pk) = Inr ()
      then filter (\<lambda>r. buyer r \<noteq> pk
                \<and> product r \<notin> set (map pid (filter (\<lambda>p. seller p = pk) (products s))))
             (orders s)
      else orders s)"
proof (cases "user_get_object s c pk")
  case (Inl e)
  then show ?thesis by (simp add: user_destroy_def)
next
  case (Inr u)
  then have "uid u = pk"
    by (auto simp: user_get_object_def split: option.splits dest: find_uid)
  with Inr show ?thesis by (simp add: user_destroy_def delete_user_def Let_def)
qed

lemma sold_destroy_orders:
  "orders (snd (sold_destroy s c k)) =
     (if fst (sold_destroy s c k) = Inr () then filter (\<lambda>r. oid r \<noteq> k) (orders s)
      else orders s)"
proof (cases "check_permissions (sold_get_permissions Destroy) c")
  case (Some e)
  then show ?thesis by (simp add: sold_destroy_def)
next
  case None
  show ?thesis
  proof (cases "sold_get_object s Destroy c k")
    case n: None
    with None show ?thesis by (simp add: sold_destroy_def)
  next
    case (Some r)
    then have "oid r = k" unfolding sold_get_object_def by (rule find_oid)
    with None Some show ?thesis by (simp add: sold_destroy_def)
  qed
qed

lemma apply_sold_patch_oid: "oid (apply_sold_patch d r) = oid r"
  by (simp add: apply_sold_patch_def)

lemma sold_update_orders:
  assumes "r \<in> set (orders s)"
  shows "oid r \<in> oid ` set (orders (snd (sold_update s c k d)))
         \<and> (k \<noteq> oid r \<longrightarrow> r \<in> set (orders (snd (sold_update s c k d))))"
proof (cases "check_permissions (sold_get_permissions Partial_update) c")
  case (Some e)
  with assms show ?thesis by (simp add: sold_update_def)
next
  case None
  show ?thesis
  proof (cases "sold_get_object s Partial_update c k")
    case n: None
    with None assms show ?thesis by (simp add: sold_update_def)
  next
    case (Some r0)
    then have k: "oid r0 = k" unfolding sold_get_object_def by (rule find_oid)
    show ?thesis
    proof (cases "validate_sold_patch s d = []")
      case False
      with None Some assms show ?thesis by (simp add: sold_update_def)
    next
      case True
      with None Some have o: "orders (snd (sold_update s c k d)) =
          map (\<lambda>x. if oid x = oid r0 then apply_sold_patch d r0 else x) (orders s)"
        by (simp add: sold_update_def)
      have "oid ((\<lambda>x. if oid x = oid r0 then apply_sold_patch d r0 else x) r) = oid r"
        by (simp add: apply_sold_patch_oid)
      with assms have a: "oid r \<in> oid ` set (orders (snd (sold_update s c k d)))"
        unfolding o by (metis (no_types, lifting) image_eqI list.set_map)
      from assms k have b: "k \<noteq> oid r \<longrightarrow> r \<in> set (orders (snd (sold_update s c k d)))"
        unfolding o by (auto simp: image_iff intro!: bexI [of _ r])
      from a b show ?thesis by simp
    qed
  qed
qed

text \<open>
  Claim C9, as the code has it. The foreign keys of \<^verbatim>\<open>SoldProduct\<close> are declared
  \<^verbatim>\<open>on_delete=models.CASCADE\<close>, so deleting a product deletes its orders. First the
  request that shows it: the owning seller deletes the fern, and the order for it is
  gone.
\<close>

theorem order_deleted_counterexample:
  "orders shop_sold = [fern_order] \<and> product fern_order = 1
   \<and> map_option seller (get_product shop_sold 1) = Some (uid alice)
   \<and> fst (product_destroy shop_sold (Some alice) None 1) = Inr ()
   \<and> orders (snd (product_destroy shop_sold (Some alice) None 1)) = []"
  by code_simp

text \<open>
  Claim C9, amended: an operation of the system removes an existing order record only
  when it is the deletion of that order, the deletion of the order's product, or the
  deletion of the account of its buyer or of the seller of its product. After every
  other operation, and after every one of these that is refused, the record is still
  there: unchanged, or, after an update of that order, under the same id.
\<close>

theorem orders_kept:
  assumes "r \<in> set (orders s)"
  shows "r \<in> set (orders (run s c op))
         \<or> ((\<exists>d. op = Sold_update (oid r) d) \<and> oid r \<in> oid ` set (orders (run s c op)))
         \<or> op = Sold_destroy (oid r)
         \<or> (\<exists>cat. op = Product_destroy cat (product r))
         \<or> (\<exists>k. op = User_destroy k
               \<and> (k = buyer r \<or> (\<exists>p\<in>set (products s). pid p = product r \<and> seller p = k)))"
proof (cases op)
  case Read
  with assms show ?thesis by simp
next
  case (Account_write us)
  with assms show ?thesis by simp
next
  case (User_destroy k)
  show ?thesis
  proof (cases "r \<in> set (orders (run s c op))")
    case True
    then show ?thesis by simp
  next
    case False
    with assms User_destroy have "buyer r = k
        \<or> product r \<in> set (map pid (filter (\<lambda>p. seller p = k) (products s)))"
      by (auto simp: user_destroy_orders split: if_splits)
    then have "k = buyer r \<or> (\<exists>p\<in>set (products s). pid p = product r \<and> seller p = k)"
      by auto
    with User_destroy show ?thesis by simp
  qed
next
  case (Product_create f)
  with assms show ?thesis by (simp add: product_create_orders)
next
  case (Product_update cat k d)
  with assms show ?thesis by (simp add: product_update_orders)
next
  case (Product_destroy cat k)
  with assms show ?thesis by (auto simp: product_destroy_orders)
next
  case (Sold_create req)
  with assms sold_create_orders [of s c req] show ?thesis by auto
next
  case (Sold_update k d)
  with sold_update_orders [OF assms, of c k d] show ?thesis by auto
next
  case (Sold_destroy k)
  with assms show ?thesis by (auto simp: sold_destroy_orders)
qed

theorem orders_kept_witness:
  "fern_order \<in> set (orders shop_sold)
   \<and> fern_order \<in> set (orders (run shop_sold (Some bob) (Sold_create (buy 1 1 1250))))
   \<and> fern_order \<in> set (orders (run shop_sold (Some alice) (Product_update None 1 (reprice 9900))))
   \<and> fern_order \<in> set (orders (run shop_sold (Some alice) (Product_destroy None 2)))
   \<and> fern_order \<in> set (orders (run shop_sold (Some carol) (Account_write [carol])))
   \<and> orders (run shop_sold (Some carol) (Sold_destroy 1)) = [fern_order]
   \<and> orders (run shop_sold (Some bob) (Sold_destroy 1)) = []
   \<and> orders (run shop_sold (Some alice) (Sold_destroy 1)) = []
   \<and> orders (run shop_sold (Some alice) (Product_destroy None 1)) = []
   \<and> orders (run shop_sold (Some bob) (User_destroy 2)) = []
   \<and> orders (run shop_sold (Some alice) (User_destroy 1)) = []"
proof -
  have h: "fern_order \<in> set (orders shop_sold)" by code_simp
  have o: "oid fern_order = 1" "product fern_order = 1" by code_simp+
  from orders_kept [OF h, of "Some bob" "Sold_create (buy 1 1 1250)"]
  have r1: "fern_order \<in> set (orders (run shop_sold (Some bob) (Sold_create (buy 1 1 1250))))"
    by simp
  from orders_kept [OF h, of "Some alice" "Product_update None 1 (reprice 9900)"]
  have r2: "fern_order
      \<in> set (orders (run shop_sold (Some alice) (Product_update None 1 (reprice 9900))))"
    by simp
  from orders_kept [OF h, of "Some alice" "Product_destroy None 2"] o
  have r3: "fern_order \<in> set (orders (run shop_sold (Some alice) (Product_destroy None 2)))"
    by simp
  from orders_kept [OF h, of "Some carol" "Account_write [carol]"]
  have r4: "fern_order \<in> set (orders (run shop_sold (Some carol) (Account_write [carol])))"
    by simp
  have v1: "orders (run shop_sold (Some carol) (Sold_destroy 1)) = [fern_order]" by code_simp
  have v2: "orders (run shop_sold (Some bob) (Sold_destroy 1)) = []" by code_simp
  have v3: "orders (run shop_sold (Some alice) (Sold_destroy 1)) = []" by code_simp
  have v4: "orders (run shop_sold (Some alice) (Product_destroy None 1)) = []" by code_simp
  have v5: "orders (run shop_sold (Some bob) (User_destroy 2)) = []" by code_simp
  have v6: "orders (run shop_sold (Some alice) (User_destroy 1)) = []" by code_simp
  from h r1 r2 r3 r4 v1 v2 v3 v4 v5 v6 show ?thesis by (intro conjI)
qed

end
